theory Spec2Isabelle
  imports
    Main
    "HOL-Library.Word"
    "HOL-Library.Char_ord"
    "HOL-Library.List_Lexorder"
begin

section \<open>Values shared by both source files\<close>

text \<open>
  A Go \<^verbatim>\<open>string\<close> is a sequence of bytes, as \<^typ>\<open>string\<close> is here. A Go
  \<^verbatim>\<open>error\<close> is used by the program only through the text that \<^verbatim>\<open>%v\<close> prints.
\<close>

datatype error = Error (error_text: string)

text \<open>The status constants of \<^verbatim>\<open>diagnostics.go\<close> (lines 25 to 28).\<close>

definition statusOk :: string where
  "statusOk = ''ok''"

definition statusWarning :: string where
  "statusWarning = ''warning''"

definition statusFail :: string where
  "statusFail = ''fail''"

definition statusFatal :: string where
  "statusFatal = ''fatal''"

text \<open>
  \<^verbatim>\<open>operations.DiagnosticCheck\<close> of \<^verbatim>\<open>diagnostics.go\<close> has four string fields.
  \<^verbatim>\<open>tlscheck.go\<close> builds \<^verbatim>\<open>common.DiagnosticCheck\<close> values, which carry a
  \<^verbatim>\<open>Category\<close> besides the same four fields; the declaration of that type is not part
  of the sources at hand, and its fields are the ones that \<^verbatim>\<open>tlsCheckHost\<close> sets.
\<close>

record DiagnosticCheck =
  Type :: string
  Status :: string
  Message :: string
  Link :: string

text \<open>
  Modelled from the spec: the constants \<^verbatim>\<open>CategoryNetworkLink\<close>,
  \<^verbatim>\<open>CategoryNetworkTLSVersion\<close>, \<^verbatim>\<open>CategoryNetworkTLSVerify\<close> and
  \<^verbatim>\<open>CategoryNetworkTLSChain\<close> of package \<^verbatim>\<open>common\<close> are not part of the sources
  at hand. The specification describes the category as a fine-grained enumeration with the
  members link, tls-version, tls-verify and tls-chain, so they are four distinct values.
\<close>

datatype category =
  CategoryNetworkLink
  | CategoryNetworkTLSVersion
  | CategoryNetworkTLSVerify
  | CategoryNetworkTLSChain

record common_DiagnosticCheck = DiagnosticCheck +
  Category :: category

section \<open>Formatting verbs of \<^verbatim>\<open>fmt.Sprintf\<close>\<close>

definition hexdigit :: "string \<Rightarrow> nat \<Rightarrow> char" where
  "hexdigit alphabet d = alphabet ! (d mod 16)"

fun hex_of_nat :: "string \<Rightarrow> nat \<Rightarrow> string" where
  "hex_of_nat alphabet n =
     (if n < 16 then [hexdigit alphabet n]
      else hex_of_nat alphabet (n div 16) @ [hexdigit alphabet (n mod 16)])"

fun decimal_of_nat :: "nat \<Rightarrow> string" where
  "decimal_of_nat n =
     (if n < 10 then [''0123456789'' ! n]
      else decimal_of_nat (n div 10) @ [''0123456789'' ! (n mod 10)])"

text \<open>\<^verbatim>\<open>%d\<close> of a signed integer.\<close>

definition fmt_d :: "int \<Rightarrow> string" where
  "fmt_d i = (if i < 0 then ''-'' @ decimal_of_nat (nat (- i)) else decimal_of_nat (nat i))"

text \<open>A minimal width with the \<^verbatim>\<open>0\<close> flag pads on the left with zeros.\<close>

definition pad_zero :: "nat \<Rightarrow> string \<Rightarrow> string" where
  "pad_zero w s = replicate (w - length s) (CHR ''0'') @ s"

text \<open>\<^verbatim>\<open>%03x\<close> of a \<^verbatim>\<open>uint16\<close>.\<close>

definition fmt_03x :: "16 word \<Rightarrow> string" where
  "fmt_03x v = pad_zero 3 (hex_of_nat ''0123456789abcdef'' (unat v))"

text \<open>\<^verbatim>\<open>strings.Join\<close>.\<close>

fun Join :: "string list \<Rightarrow> string \<Rightarrow> string" where
  "Join [] sep = []"
| "Join [x] sep = x"
| "Join (x # y # ys) sep = x @ sep @ Join (y # ys) sep"

text \<open>
  \<^verbatim>\<open>% 02X\<close> of a byte slice writes two upper-case digits for each byte, the bytes
  separated by one space. The program applies it to six bytes only, which are 17
  characters, so that the minimal width 2 never pads.
\<close>

definition fmt_byte_X :: "8 word \<Rightarrow> string" where
  "fmt_byte_X b =
     [hexdigit ''0123456789ABCDEF'' (unat b div 16), hexdigit ''0123456789ABCDEF'' (unat b mod 16)]"

definition fmt_spaced_X :: "8 word list \<Rightarrow> string" where
  "fmt_spaced_X bs = Join (map fmt_byte_X bs) '' ''"

text \<open>
  Three renderings are left to the Go library and taken as they come: \<^verbatim>\<open>%q\<close>
  (\<^verbatim>\<open>strconv.Quote\<close>), the number of runes of a string, by which \<^verbatim>\<open>%-18s\<close> and
  \<^verbatim>\<open>%-8s\<close> pad, and \<^verbatim>\<open>Time.Format\<close>. A \<^verbatim>\<open>time.Time\<close> is an instant.
\<close>

type_synonym time = int

record library =
  Quote :: "string \<Rightarrow> string"
  RuneCountInString :: "string \<Rightarrow> nat"
  TimeFormat :: "string \<Rightarrow> time \<Rightarrow> string"

text \<open>\<^verbatim>\<open>%-18s\<close> and \<^verbatim>\<open>%-8s\<close>: blanks on the right up to the width, counted in runes.\<close>

definition pad_right :: "'a library_scheme \<Rightarrow> nat \<Rightarrow> string \<Rightarrow> string" where
  "pad_right lib w s = s @ replicate (w - RuneCountInString lib s) (CHR '' '')"

text \<open>\<^verbatim>\<open>%v\<close> of a slice of strings.\<close>

definition fmt_v_strings :: "string list \<Rightarrow> string" where
  "fmt_v_strings xs = ''['' @ Join xs '' '' @ '']''"

definition newline :: string where
  "newline = [CHR 0x0A]"

section \<open>\<^verbatim>\<open>tlscheck.go\<close>\<close>

subsection \<open>Data\<close>

text \<open>
  A Go slice is a window on a backing array: \<open>visible\<close> are its \<^verbatim>\<open>len\<close> elements,
  \<open>spare\<close> the elements of the backing array behind them, up to the capacity. The slice
  expression \<^verbatim>\<open>s[:n]\<close> is in range when \<open>n\<close> is at most the capacity (not the length)
  and panics otherwise.
\<close>

record byte_slice =
  visible :: "8 word list"
  spare :: "8 word list"

definition slice_len :: "byte_slice \<Rightarrow> nat" where
  "slice_len s = length (visible s)"

definition slice_cap :: "byte_slice \<Rightarrow> nat" where
  "slice_cap s = length (visible s) + length (spare s)"

definition slice_upto :: "byte_slice \<Rightarrow> nat \<Rightarrow> byte_slice option" where
  "slice_upto s n =
     (if n \<le> slice_cap s
      then Some \<lparr>visible = take n (visible s @ spare s), spare = drop n (visible s @ spare s)\<rparr>
      else None)"

text \<open>
  The fields of \<^verbatim>\<open>x509.Certificate\<close> that the program reads. A \<^verbatim>\<open>pkix.Name\<close> is
  kept as the text its \<^verbatim>\<open>String\<close> method returns, which is all the program uses of it.
\<close>

type_synonym pkix_Name = string

record Certificate =
  Signature :: byte_slice
  DNSNames :: "string list"
  NotBefore :: time
  NotAfter :: time
  Subject :: pkix_Name
  Issuer :: pkix_Name

text \<open>
  An \<^verbatim>\<open>x509.CertPool\<close> holds the certificates added to it; adding one it already holds
  changes nothing.
\<close>

type_synonym CertPool = "Certificate list"

definition NewCertPool :: CertPool where
  "NewCertPool = []"

definition AddCert :: "CertPool \<Rightarrow> Certificate \<Rightarrow> CertPool" where
  "AddCert pool cert = (if cert \<in> set pool then pool else pool @ [cert])"

record VerifyOptions =
  DNSName :: string
  Roots :: "CertPool option"
  Intermediates :: CertPool

record ConnectionState =
  Version :: "16 word"
  ServerName :: string
  PeerCertificates :: "Certificate list"

text \<open>The fields of the transport's \<^verbatim>\<open>TLSClientConfig\<close> that the program touches.\<close>

record Transport =
  InsecureSkipVerify :: bool
  MinVersion :: "16 word"
  RootCAs :: "CertPool option"

text \<open>Of an \<^verbatim>\<open>http.Response\<close> only the field \<^verbatim>\<open>TLS\<close> is read; it is a pointer and may be nil.\<close>

record Response =
  TLS :: "ConnectionState option"

text \<open>
  What the program takes from outside: the settings, the network, the path verification of
  \<^verbatim>\<open>crypto/x509\<close> and the debug flag, besides the library above.
\<close>

record tls_env = library +
  ConfiguredHttpTransport :: Transport
  DocsLink :: "string \<Rightarrow> string"
  Head :: "Transport \<Rightarrow> string \<Rightarrow> error + Response"
  Verify :: "Certificate \<Rightarrow> VerifyOptions \<Rightarrow> error option"
  DebugFlag :: bool

text \<open>The protocol versions of \<^verbatim>\<open>crypto/tls\<close>.\<close>

definition VersionSSL30 :: "16 word" where
  "VersionSSL30 = 0x0300"

definition VersionTLS10 :: "16 word" where
  "VersionTLS10 = 0x0301"

definition VersionTLS11 :: "16 word" where
  "VersionTLS11 = 0x0302"

definition VersionTLS12 :: "16 word" where
  "VersionTLS12 = 0x0303"

definition VersionTLS13 :: "16 word" where
  "VersionTLS13 = 0x0304"

subsection \<open>Functions\<close>

text \<open>The table \<^verbatim>\<open>tlsVersions\<close> after \<^verbatim>\<open>init\<close> has run (lines 14 to 24).\<close>

definition tlsVersions :: "16 word \<rightharpoonup> string" where
  "tlsVersions =
     [VersionSSL30 \<mapsto> ''SSLv3'',
      VersionTLS10 \<mapsto> ''TLS 1.0'',
      VersionTLS11 \<mapsto> ''TLS 1.1'',
      VersionTLS12 \<mapsto> ''TLS 1.2'',
      VersionTLS13 \<mapsto> ''TLS 1.3'']"

definition tlsCheckHeadOnly :: "tls_env \<Rightarrow> string \<Rightarrow> error + ConnectionState option" where
  "tlsCheckHeadOnly env url =
     (let transport = (ConfiguredHttpTransport env)
            \<lparr>InsecureSkipVerify := True, MinVersion := VersionSSL30\<rparr>
      in case Head env transport url of
           Inl err \<Rightarrow> Inl err
         | Inr response \<Rightarrow> Inr (TLS response))"

text \<open>
  \<^verbatim>\<open>certificateChain\<close>: the loop carries the index \<open>at\<close> and the \<open>parts\<close> collected so
  far. \<open>None\<close> is the panic of an out-of-range \<^verbatim>\<open>certificate.Signature[:6]\<close>.
\<close>

fun certificateChain_loop ::
  "tls_env \<Rightarrow> nat \<Rightarrow> Certificate list \<Rightarrow> string list \<Rightarrow> string list option" where
  "certificateChain_loop env at [] parts = Some parts"
| "certificateChain_loop env at (certificate # rest) parts =
     (let names = Join (DNSNames certificate) '', '';
          before = TimeFormat env ''2006-Jan-02'' (NotBefore certificate);
          after = TimeFormat env ''2006-Jan-02'' (NotAfter certificate)
      in case slice_upto (Signature certificate) 6 of
           None \<Rightarrow> None
         | Some sig \<Rightarrow>
             (let form = ''#'' @ decimal_of_nat at @ '': ['' @ fmt_spaced_X (visible sig)
                    @ '' ...] names ['' @ names @ ''] '' @ before @ ''...'' @ after @ '' ''
                    @ Quote env (Subject certificate) @ '' issued by ''
                    @ Quote env (Issuer certificate)
              in certificateChain_loop env (at + 1) rest (parts @ [form])))"

definition certificateChain :: "tls_env \<Rightarrow> Certificate list \<Rightarrow> string option" where
  "certificateChain env certificates =
     (case certificateChain_loop env 0 certificates [] of
        None \<Rightarrow> None
      | Some parts \<Rightarrow> Some (Join parts ''; ''))"

text \<open>
  The loop of lines 112 to 115: every certificate behind the first is added to the
  intermediates and becomes \<open>last\<close> (written \<open>last'\<close>).
\<close>

fun intermediates_loop ::
  "Certificate list \<Rightarrow> VerifyOptions \<times> Certificate \<Rightarrow> VerifyOptions \<times> Certificate" where
  "intermediates_loop [] (toVerify, last') = (toVerify, last')"
| "intermediates_loop (certificate # rest) (toVerify, last') =
     intermediates_loop rest
       (toVerify\<lparr>Intermediates := AddCert (Intermediates toVerify) certificate\<rparr>, certificate)"

text \<open>
  \<^verbatim>\<open>tlsCheckHost\<close> returns the checks and writes its verdict into the map
  \<open>roots\<close>, which the caller shares. The model gives both: the first component is the
  slice returned, or \<open>None\<close> when the call panics (on the nil \<^verbatim>\<open>response.TLS\<close>
  that \<^verbatim>\<open>state.ServerName\<close> dereferences, or inside \<^verbatim>\<open>certificateChain\<close>); the
  second is the map as the call leaves it, with the write of line 117 also when a panic
  follows it.
\<close>

definition tlsCheckHost ::
  "tls_env \<Rightarrow> string \<Rightarrow> (string \<rightharpoonup> bool) \<Rightarrow>
     common_DiagnosticCheck list option \<times> (string \<rightharpoonup> bool)" where
  "tlsCheckHost env host roots =
     (let transport = ConfiguredHttpTransport env;
          result = [];
          supportNetworkUrl = DocsLink env ''troubleshooting/firewall-and-proxies'';
          url = ''https://'' @ host @ ''/''
      in case tlsCheckHeadOnly env url of
           Inl err \<Rightarrow>
             (Some (result @ [\<lparr>Type = ''network'', Status = statusWarning,
                              Message = url @ '' -> '' @ error_text err,
                              Link = supportNetworkUrl,
                              Category = CategoryNetworkLink\<rparr>]), roots)
         | Inr None \<Rightarrow> (None, roots)
         | Inr (Some state) \<Rightarrow>
             (let server = ServerName state;
                  result =
                    (case tlsVersions (Version state) of
                       None \<Rightarrow>
                         result @ [\<lparr>Type = ''network'', Status = statusWarning,
                                     Message = ''unknown TLS version: '' @ Quote env host
                                       @ '' -> '' @ fmt_03x (Version state),
                                     Link = supportNetworkUrl,
                                     Category = CategoryNetworkTLSVersion\<rparr>]
                     | Some version \<Rightarrow>
                         (let tlsStatus =
                                (if Version state < VersionTLS12 then statusWarning else statusOk)
                          in result @ [\<lparr>Type = ''network'', Status = tlsStatus,
                                         Message = ''TLS version: '' @ Quote env host
                                           @ '' -> '' @ version,
                                         Link = supportNetworkUrl,
                                         Category = CategoryNetworkTLSVersion\<rparr>]));
                  toVerify = \<lparr>DNSName = server, Roots = RootCAs transport,
                              Intermediates = NewCertPool\<rparr>;
                  certificates = PeerCertificates state
              in if length certificates = 0
                 then (Some (result @ [\<lparr>Type = ''network'', Status = statusWarning,
                                        Message = ''no certificates for '' @ server,
                                        Link = supportNetworkUrl,
                                        Category = CategoryNetworkTLSVerify\<rparr>]), roots)
                 else
                   (let (toVerify, last') =
                          intermediates_loop (tl certificates) (toVerify, hd certificates);
                        err = Verify env (hd certificates) toVerify;
                        roots = roots(Issuer last' \<mapsto> (err = None))
                    in case err of
                         Some e \<Rightarrow>
                           (let result = result @
                                  [\<lparr>Type = ''network'', Status = statusWarning,
                                    Message = ''TLS verification of '' @ Quote env server
                                      @ '' failed, reason: '' @ error_text e
                                      @ '' [last issuer: '' @ Quote env (Issuer last') @ '']'',
                                    Link = supportNetworkUrl,
                                    Category = CategoryNetworkTLSVerify\<rparr>]
                            in if DebugFlag env
                               then (case certificateChain env certificates of
                                       None \<Rightarrow> (None, roots)
                                     | Some chain \<Rightarrow>
                                         (Some (result @
                                           [\<lparr>Type = ''network'', Status = statusWarning,
                                             Message = Quote env host
                                               @ '' certificate chain is {'' @ chain @ ''}.'',
                                             Link = supportNetworkUrl,
                                             Category = CategoryNetworkTLSChain\<rparr>]), roots))
                               else (Some result, roots))
                       | None \<Rightarrow>
                           (Some (result @
                             [\<lparr>Type = ''network'', Status = statusOk,
                               Message = ''TLS verification of '' @ Quote env server
                                 @ '' passed with certificate issued by ''
                                 @ Quote env (Issuer last'),
                               Link = supportNetworkUrl,
                               Category = CategoryNetworkTLSVerify\<rparr>]), roots))))"

section \<open>\<^verbatim>\<open>diagnostics.go\<close>\<close>

subsection \<open>Data\<close>

definition canaryHost :: string where
  "canaryHost = ''https://downloads.robocorp.com''"

definition canaryUrl :: string where
  "canaryUrl = ''/canary.txt''"

definition supportLongPathUrl :: string where
  "supportLongPathUrl = ''https://robocorp.com/docs/troubleshooting/windows-long-path''"

definition supportNetworkUrl :: string where
  "supportNetworkUrl = ''https://robocorp.com/docs/troubleshooting/firewall-and-proxies''"

definition supportGeneralUrl :: string where
  "supportGeneralUrl = ''https://robocorp.com/docs/troubleshooting''"

definition checkedHosts :: "string list" where
  "checkedHosts =
     [''api.eu1.robocloud.eu'',
      ''downloads.robocorp.com'',
      ''pypi.org'',
      ''conda.anaconda.org'',
      ''github.com'',
      ''files.pythonhosted.org'']"

text \<open>
  The checks of a report are pointers to records that are allocated where the check is made
  and never written again, so the report holds the records themselves.
\<close>

record DiagnosticStatus =
  Details :: "string \<rightharpoonup> string"
  Checks :: "DiagnosticCheck list"

text \<open>The two fields of the canary download's response that are read.\<close>

record cloud_Response =
  ResponseStatus :: int
  ResponseBody :: string

text \<open>
  What \<^verbatim>\<open>diagnostics.go\<close> takes from the operating system, the settings, the packages
  \<^verbatim>\<open>conda\<close>, \<^verbatim>\<open>xviper\<close>, \<^verbatim>\<open>common\<close> and \<^verbatim>\<open>cloud\<close>, and the network. A Go
  function returning a value and an error is a pair whose second component is \<open>None\<close>
  for a nil error. \<^verbatim>\<open>NewClient\<close> is the error of \<^verbatim>\<open>cloud.NewClient\<close>, if any, and
  \<^verbatim>\<open>ClientGet\<close> the response that the client of an endpoint gets for a path.
\<close>

record diag_env = library +
  Executable :: "string \<times> error option"
  common_Version :: string
  MicromambaVersion :: string
  RobocorpHome :: string
  UserCacheDir :: "string \<times> error option"
  UserConfigDir :: "string \<times> error option"
  UserHomeDir :: "string \<times> error option"
  Getwd :: "string \<times> error option"
  TempDir :: string
  ControllerIdentity :: string
  TrackingIdentity :: string
  GOOS :: string
  GOARCH :: string
  NumCPU :: int
  GetInt :: "string \<Rightarrow> int"
  TemplateList :: "string list"
  HasLongPathSupport :: bool
  ValidLocation :: "string \<Rightarrow> bool"
  LookupHost :: "string \<Rightarrow> error + string list"
  NewClient :: "string \<Rightarrow> error option"
  ClientGet :: "string \<Rightarrow> string \<Rightarrow> cloud_Response"

subsection \<open>Functions\<close>

definition justText :: "string \<times> error option \<Rightarrow> string" where
  "justText source = (let (result, _) = source in result)"

definition rccStatusLine :: "diag_env \<Rightarrow> string" where
  "rccStatusLine env =
     (let requests = GetInt env ''stats.env.request'';
          hits = GetInt env ''stats.env.hit'';
          dirty = GetInt env ''stats.env.dirty'';
          misses = GetInt env ''stats.env.miss'';
          failures = GetInt env ''stats.env.failures'';
          merges = GetInt env ''stats.env.merges'';
          templates = int (length (TemplateList env))
      in fmt_d templates @ '' environments, '' @ fmt_d requests @ '' requests, ''
           @ fmt_d merges @ '' merges, '' @ fmt_d hits @ '' hits, '' @ fmt_d dirty
           @ '' dirty, '' @ fmt_d misses @ '' misses, '' @ fmt_d failures @ '' failures | ''
           @ TrackingIdentity env)"

definition longPathSupportCheck :: "diag_env \<Rightarrow> DiagnosticCheck" where
  "longPathSupportCheck env =
     (if HasLongPathSupport env
      then \<lparr>Type = ''OS'', Status = statusOk,
            Message = ''Supports long enough paths.'',
            Link = supportLongPathUrl\<rparr>
      else \<lparr>Type = ''OS'', Status = statusFail,
            Message = ''Does not support long path names!'',
            Link = supportLongPathUrl\<rparr>)"

definition robocorpHomeCheck :: "diag_env \<Rightarrow> DiagnosticCheck" where
  "robocorpHomeCheck env =
     (if \<not> ValidLocation env (RobocorpHome env)
      then \<lparr>Type = ''RPA'', Status = statusFatal,
            Message = ''ROBOCORP_HOME ('' @ RobocorpHome env
              @ '') contains characters that makes RPA fail.'',
            Link = supportGeneralUrl\<rparr>
      else \<lparr>Type = ''RPA'', Status = statusOk,
            Message = ''ROBOCORP_HOME ('' @ RobocorpHome env @ '') is good enough.'',
            Link = supportGeneralUrl\<rparr>)"

definition dnsLookupCheck :: "diag_env \<Rightarrow> string \<Rightarrow> DiagnosticCheck" where
  "dnsLookupCheck env site =
     (case LookupHost env site of
        Inl err \<Rightarrow>
          \<lparr>Type = ''network'', Status = statusFail,
           Message = ''DNS lookup '' @ site @ '' failed: '' @ error_text err,
           Link = supportNetworkUrl\<rparr>
      | Inr found \<Rightarrow>
          \<lparr>Type = ''network'', Status = statusOk,
           Message = site @ '' found: '' @ fmt_v_strings found,
           Link = supportNetworkUrl\<rparr>)"

definition canaryDownloadCheck :: "diag_env \<Rightarrow> DiagnosticCheck" where
  "canaryDownloadCheck env =
     (case NewClient env canaryHost of
        Some err \<Rightarrow>
          \<lparr>Type = ''network'', Status = statusFail,
           Message = canaryHost @ '': '' @ error_text err,
           Link = supportNetworkUrl\<rparr>
      | None \<Rightarrow>
          (let response = ClientGet env canaryHost canaryUrl
           in if ResponseStatus response \<noteq> 200
                   \<or> ResponseBody response \<noteq> ''Used to testing connections''
              then \<lparr>Type = ''network'', Status = statusFail,
                    Message = ''Canary download failed: '' @ fmt_d (ResponseStatus response)
                      @ '': '' @ ResponseBody response,
                    Link = supportNetworkUrl\<rparr>
              else \<lparr>Type = ''network'', Status = statusOk,
                    Message = ''Canary download successful: '' @ canaryHost @ canaryUrl,
                    Link = supportNetworkUrl\<rparr>))"

text \<open>The loop of lines 93 to 95 appends one DNS check for each host, in the order of the list.\<close>

fun dns_loop :: "diag_env \<Rightarrow> string list \<Rightarrow> DiagnosticStatus \<Rightarrow> DiagnosticStatus" where
  "dns_loop env [] result = result"
| "dns_loop env (host # rest) result =
     dns_loop env rest (result\<lparr>Checks := Checks result @ [dnsLookupCheck env host]\<rparr>)"

text \<open>An assignment \<^verbatim>\<open>result.Details[key] = value\<close>.\<close>

definition set_detail :: "string \<Rightarrow> string \<Rightarrow> DiagnosticStatus \<Rightarrow> DiagnosticStatus" where
  "set_detail key v result = result\<lparr>Details := (Details result)(key \<mapsto> v)\<rparr>"

definition RunDiagnostics :: "diag_env \<Rightarrow> DiagnosticStatus" where
  "RunDiagnostics env =
     (let result = \<lparr>Details = Map.empty, Checks = []\<rparr>;
          (executable, _) = Executable env;
          result = set_detail ''executable'' executable result;
          result = set_detail ''rcc'' (common_Version env) result;
          result = set_detail ''stats'' (rccStatusLine env) result;
          result = set_detail ''micromamba'' (MicromambaVersion env) result;
          result = set_detail ''ROBOCORP_HOME'' (RobocorpHome env) result;
          result = set_detail ''user-cache-dir'' (justText (UserCacheDir env)) result;
          result = set_detail ''user-config-dir'' (justText (UserConfigDir env)) result;
          result = set_detail ''user-home-dir'' (justText (UserHomeDir env)) result;
          result = set_detail ''working-dir'' (justText (Getwd env)) result;
          result = set_detail ''tempdir'' (TempDir env) result;
          result = set_detail ''controller'' (ControllerIdentity env) result;
          result = set_detail ''installationId'' (TrackingIdentity env) result;
          result = set_detail ''os'' (GOOS env @ '' '' @ GOARCH env) result;
          result = set_detail ''cpus'' (fmt_d (NumCPU env)) result;
          result = result\<lparr>Checks := Checks result @ [robocorpHomeCheck env]\<rparr>;
          result = result\<lparr>Checks := Checks result @ [longPathSupportCheck env]\<rparr>;
          result = dns_loop env checkedHosts result;
          result = result\<lparr>Checks := Checks result @ [canaryDownloadCheck env]\<rparr>
      in result)"

text \<open>
  \<^verbatim>\<open>humaneDiagnostics\<close> writes to a sink; the model appends to the text written so far.
  Go ranges over a map in an order of its own choosing: \<open>range_order\<close> is the order in
  which the keys of \<^verbatim>\<open>details.Details\<close> come. \<^verbatim>\<open>sort.Strings\<close> orders byte strings
  lexicographically, as \<^const>\<open>sort\<close> does for \<^typ>\<open>string\<close>.
\<close>

definition Fprintln :: "string \<Rightarrow> string \<Rightarrow> string" where
  "Fprintln sink line = sink @ line @ newline"

fun collect_keys :: "string list \<Rightarrow> string list \<Rightarrow> string list" where
  "collect_keys [] keys = keys"
| "collect_keys (key # rest) keys = collect_keys rest (keys @ [key])"

fun print_details ::
  "'a library_scheme \<Rightarrow> DiagnosticStatus \<Rightarrow> string list \<Rightarrow> string \<Rightarrow> string" where
  "print_details lib details [] sink = sink"
| "print_details lib details (key # rest) sink =
     (let v = (case Details details key of None \<Rightarrow> [] | Some v \<Rightarrow> v)
      in print_details lib details rest
           (sink @ '' - '' @ pad_right lib 18 key @ ''...  '' @ Quote lib v @ newline))"

fun print_checks :: "'a library_scheme \<Rightarrow> DiagnosticCheck list \<Rightarrow> string \<Rightarrow> string" where
  "print_checks lib [] sink = sink"
| "print_checks lib (check # rest) sink =
     print_checks lib rest
       (sink @ '' - '' @ pad_right lib 8 (Type check) @ '' '' @ pad_right lib 8 (Status check)
          @ '' '' @ Message check @ newline)"

definition humaneDiagnostics ::
  "'a library_scheme \<Rightarrow> string list \<Rightarrow> string \<Rightarrow> DiagnosticStatus \<Rightarrow> string" where
  "humaneDiagnostics lib range_order sink details =
     (let sink = Fprintln sink ''Diagnostics:'';
          keys = collect_keys range_order [];
          keys = sort keys;
          sink = print_details lib details keys sink;
          sink = Fprintln sink [];
          sink = Fprintln sink ''Checks:'';
          sink = print_checks lib (Checks details) sink
      in sink)"

section \<open>Names for what the functions compute on the way\<close>

text \<open>The check that lines 73 to 94 of \<^verbatim>\<open>tlsCheckHost\<close> append for a connection state.\<close>

definition versionCheck :: "tls_env \<Rightarrow> string \<Rightarrow> ConnectionState \<Rightarrow> common_DiagnosticCheck" where
  "versionCheck env host state =
     (case tlsVersions (Version state) of
        None \<Rightarrow>
          \<lparr>Type = ''network'', Status = statusWarning,
           Message = ''unknown TLS version: '' @ Quote env host @ '' -> ''
             @ fmt_03x (Version state),
           Link = DocsLink env ''troubleshooting/firewall-and-proxies'',
           Category = CategoryNetworkTLSVersion\<rparr>
      | Some version \<Rightarrow>
          \<lparr>Type = ''network'',
           Status = (if Version state < VersionTLS12 then statusWarning else statusOk),
           Message = ''TLS version: '' @ Quote env host @ '' -> '' @ version,
           Link = DocsLink env ''troubleshooting/firewall-and-proxies'',
           Category = CategoryNetworkTLSVersion\<rparr>)"

text \<open>
  The options that line 116 verifies the leaf against, and the error of that verification
  (\<open>None\<close> when the path verifies).
\<close>

definition verifyOptions :: "tls_env \<Rightarrow> ConnectionState \<Rightarrow> VerifyOptions" where
  "verifyOptions env state =
     fst (intermediates_loop (tl (PeerCertificates state))
       (\<lparr>DNSName = ServerName state, Roots = RootCAs (ConfiguredHttpTransport env),
         Intermediates = NewCertPool\<rparr>, hd (PeerCertificates state)))"

definition verification :: "tls_env \<Rightarrow> ConnectionState \<Rightarrow> error option" where
  "verification env state = Verify env (hd (PeerCertificates state)) (verifyOptions env state)"

text \<open>The line of the human text for one key of the details, and for one check.\<close>

definition detail_line :: "'a library_scheme \<Rightarrow> DiagnosticStatus \<Rightarrow> string \<Rightarrow> string" where
  "detail_line lib details key =
     '' - '' @ pad_right lib 18 key @ ''...  ''
       @ Quote lib (case Details details key of None \<Rightarrow> [] | Some v \<Rightarrow> v) @ newline"

definition check_line :: "'a library_scheme \<Rightarrow> DiagnosticCheck \<Rightarrow> string" where
  "check_line lib check =
     '' - '' @ pad_right lib 8 (Type check) @ '' '' @ pad_right lib 8 (Status check)
       @ '' '' @ Message check @ newline"

text \<open>The four values of the status vocabulary.\<close>

definition status_vocabulary :: "string set" where
  "status_vocabulary = {statusOk, statusWarning, statusFail, statusFatal}"

section \<open>Example inputs\<close>

text \<open>
  A small world to run the functions in: quoting puts a string between double quotes, every
  byte is a rune, and a date is printed as its layout.
\<close>

definition example_certificate :: "8 word list \<Rightarrow> pkix_Name \<Rightarrow> pkix_Name \<Rightarrow> Certificate" where
  "example_certificate sig subject issuer =
     \<lparr>Signature = \<lparr>visible = sig, spare = []\<rparr>, DNSNames = [subject],
      NotBefore = 0, NotAfter = 1, Subject = subject, Issuer = issuer\<rparr>"

definition good_state :: ConnectionState where
  "good_state =
     \<lparr>Version = VersionTLS13, ServerName = ''good.example'',
      PeerCertificates =
        [example_certificate [1, 2, 3, 4, 5, 6, 7, 8] ''good.example'' ''Intermediate CA'',
         example_certificate [9, 8, 7, 6, 5, 4, 3, 2] ''Intermediate CA'' ''Example Root'']\<rparr>"

definition bad_state :: ConnectionState where
  "bad_state =
     \<lparr>Version = VersionTLS10, ServerName = ''bad.example'',
      PeerCertificates = [example_certificate [1, 2, 3] ''bad.example'' ''Example Root'']\<rparr>"

definition unknown_state :: ConnectionState where
  "unknown_state =
     \<lparr>Version = 0x0305, ServerName = ''unknown.example'',
      PeerCertificates = [example_certificate [1, 2, 3] ''unknown.example'' ''Example Root'']\<rparr>"

definition empty_state :: ConnectionState where
  "empty_state = \<lparr>Version = 0x0305, ServerName = ''empty.example'', PeerCertificates = []\<rparr>"

definition example_Head :: "Transport \<Rightarrow> string \<Rightarrow> error + Response" where
  "example_Head transport url =
     (if url = ''https://unreachable.example/'' then Inl (Error ''dial tcp: i/o timeout'')
      else if url = ''https://good.example/'' then Inr \<lparr>TLS = Some good_state\<rparr>
      else if url = ''https://bad.example/'' then Inr \<lparr>TLS = Some bad_state\<rparr>
      else if url = ''https://empty.example/'' then Inr \<lparr>TLS = Some empty_state\<rparr>
      else if url = ''https://unknown.example/'' then Inr \<lparr>TLS = Some unknown_state\<rparr>
      else Inr \<lparr>TLS = None\<rparr>)"

definition example_Verify :: "Certificate \<Rightarrow> VerifyOptions \<Rightarrow> error option" where
  "example_Verify certificate options =
     (if DNSName options = ''good.example'' then None
      else Some (Error ''x509: certificate signed by unknown authority''))"

definition example_tls_env :: "bool \<Rightarrow> tls_env" where
  "example_tls_env debug =
     \<lparr>Quote = (\<lambda>s. [CHR 0x22] @ s @ [CHR 0x22]),
      RuneCountInString = length,
      TimeFormat = (\<lambda>layout t. layout),
      ConfiguredHttpTransport =
        \<lparr>InsecureSkipVerify = False, MinVersion = VersionTLS12, RootCAs = None\<rparr>,
      DocsLink = (\<lambda>page. ''https://robocorp.com/docs/'' @ page),
      Head = example_Head,
      Verify = example_Verify,
      DebugFlag = debug\<rparr>"

definition example_diag_env :: diag_env where
  "example_diag_env =
     \<lparr>Quote = (\<lambda>s. [CHR 0x22] @ s @ [CHR 0x22]),
      RuneCountInString = length,
      TimeFormat = (\<lambda>layout t. layout),
      Executable = (''/usr/bin/rcc'', None),
      common_Version = ''v9.7.0'',
      MicromambaVersion = ''0.8.2'',
      RobocorpHome = ''/home/user/.robocorp'',
      UserCacheDir = (''/home/user/.cache'', None),
      UserConfigDir = (''/home/user/.config'', None),
      UserHomeDir = (''/home/user'', None),
      Getwd = (''/home/user/work'', None),
      TempDir = ''/tmp'',
      ControllerIdentity = ''rcc.user'',
      TrackingIdentity = ''0000'',
      GOOS = ''linux'',
      GOARCH = ''amd64'',
      NumCPU = 4,
      GetInt = (\<lambda>key. 0),
      TemplateList = [],
      HasLongPathSupport = True,
      ValidLocation = (\<lambda>path. True),
      LookupHost = (\<lambda>site. if site = ''pypi.org''
                             then Inl (Error ''lookup pypi.org: no such host'')
                             else Inr [''10.0.0.1'']),
      NewClient = (\<lambda>endpoint. None),
      ClientGet = (\<lambda>endpoint path.
        \<lparr>ResponseStatus = 200, ResponseBody = ''Used to testing connections''\<rparr>)\<rparr>"

definition example_report :: DiagnosticStatus where
  "example_report =
     \<lparr>Details = [''rcc'' \<mapsto> ''v9.7.0'', ''os'' \<mapsto> ''linux amd64''],
      Checks = [\<lparr>Type = ''RPA'', Status = statusOk, Message = ''good enough'',
                  Link = supportGeneralUrl\<rparr>,
                \<lparr>Type = ''OS'', Status = statusFail, Message = ''no long paths'',
                  Link = supportLongPathUrl\<rparr>]\<rparr>"

section \<open>Properties of \<^verbatim>\<open>tlscheck.go\<close>\<close>

subsection \<open>Auxiliary facts\<close>

lemma status_distinct:
  "statusOk \<noteq> statusWarning" "statusWarning \<noteq> statusOk"
  "statusFail \<noteq> statusWarning" "statusWarning \<noteq> statusFail"
  by (simp_all add: statusOk_def statusWarning_def statusFail_def)

lemma tlsVersions_known:
  "tlsVersions v \<noteq> None \<longleftrightarrow>
     v \<in> {VersionSSL30, VersionTLS10, VersionTLS11, VersionTLS12, VersionTLS13}"
  by (simp add: tlsVersions_def VersionSSL30_def VersionTLS10_def VersionTLS11_def
      VersionTLS12_def VersionTLS13_def)

lemma intermediates_loop_last:
  "snd (intermediates_loop rest (toVerify, l)) = last (l # rest)"
  by (induction rest arbitrary: toVerify l) simp_all

lemma certificateChain_loop_None:
  "certificateChain_loop env at certificates parts = None
     \<longleftrightarrow> (\<exists>c\<in>set certificates. slice_cap (Signature c) < 6)"
proof (induction certificates arbitrary: at parts)
  case Nil
  show ?case by simp
next
  case (Cons certificate rest)
  show ?case
  proof (cases "6 \<le> slice_cap (Signature certificate)")
    case True
    then show ?thesis
      using Cons.IH by (simp add: slice_upto_def Let_def)
  next
    case False
    then show ?thesis
      by (simp add: slice_upto_def)
  qed
qed

lemma certificateChain_None:
  "certificateChain env certificates = None
     \<longleftrightarrow> (\<exists>c\<in>set certificates. slice_cap (Signature c) < 6)"
proof -
  have "certificateChain env certificates = None
          \<longleftrightarrow> certificateChain_loop env 0 certificates [] = None"
    by (simp add: certificateChain_def split: option.splits)
  then show ?thesis
    by (simp only: certificateChain_loop_None)
qed

lemma slice_len_le_cap: "slice_len s \<le> slice_cap s"
  by (simp add: slice_len_def slice_cap_def)

text \<open>
  What \<^const>\<open>tlsCheckHost\<close> returns once the handshake has given a connection state, branch by
  branch.
\<close>

lemma tlsCheckHost_state:
  assumes "tlsCheckHeadOnly env (''https://'' @ host @ ''/'') = Inr (Some state)"
  shows "tlsCheckHost env host roots =
     (let link = DocsLink env ''troubleshooting/firewall-and-proxies'';
          certs = PeerCertificates state;
          issuer = Issuer (last certs)
      in if certs = []
      then (Some [versionCheck env host state,
                  \<lparr>Type = ''network'', Status = statusWarning,
                   Message = ''no certificates for '' @ ServerName state,
                   Link = link, Category = CategoryNetworkTLSVerify\<rparr>], roots)
      else (case verification env state of
              None \<Rightarrow>
                (Some [versionCheck env host state,
                       \<lparr>Type = ''network'', Status = statusOk,
                        Message = ''TLS verification of '' @ Quote env (ServerName state)
                          @ '' passed with certificate issued by '' @ Quote env issuer,
                        Link = link, Category = CategoryNetworkTLSVerify\<rparr>],
                      roots(issuer \<mapsto> True))
            | Some e \<Rightarrow>
                (if DebugFlag env
                 then (case certificateChain env certs of
                         None \<Rightarrow> (None, roots(issuer \<mapsto> False))
                       | Some chain \<Rightarrow>
                           (Some [versionCheck env host state,
                                  \<lparr>Type = ''network'', Status = statusWarning,
                                   Message = ''TLS verification of ''
                                     @ Quote env (ServerName state)
                                     @ '' failed, reason: '' @ error_text e
                                     @ '' [last issuer: '' @ Quote env issuer @ '']'',
                                   Link = link, Category = CategoryNetworkTLSVerify\<rparr>,
                                  \<lparr>Type = ''network'', Status = statusWarning,
                                   Message = Quote env host @ '' certificate chain is {''
                                     @ chain @ ''}.'',
                                   Link = link, Category = CategoryNetworkTLSChain\<rparr>],
                                 roots(issuer \<mapsto> False)))
                 else (Some [versionCheck env host state,
                             \<lparr>Type = ''network'', Status = statusWarning,
                              Message = ''TLS verification of '' @ Quote env (ServerName state)
                                @ '' failed, reason: '' @ error_text e
                                @ '' [last issuer: '' @ Quote env issuer @ '']'',
                              Link = link, Category = CategoryNetworkTLSVerify\<rparr>],
                            roots(issuer \<mapsto> False)))))"
proof -
  obtain tv l where il: "intermediates_loop (tl (PeerCertificates state))
       (\<lparr>DNSName = ServerName state, Roots = RootCAs (ConfiguredHttpTransport env),
         Intermediates = NewCertPool\<rparr>, hd (PeerCertificates state)) = (tv, l)"
    by (cases "intermediates_loop (tl (PeerCertificates state))
       (\<lparr>DNSName = ServerName state, Roots = RootCAs (ConfiguredHttpTransport env),
         Intermediates = NewCertPool\<rparr>, hd (PeerCertificates state))") auto
  have tv: "verifyOptions env state = tv"
    by (simp add: verifyOptions_def il)
  have l: "PeerCertificates state \<noteq> [] \<Longrightarrow> l = last (PeerCertificates state)"
    using intermediates_loop_last [of "tl (PeerCertificates state)" _ "hd (PeerCertificates state)"] il
    by (metis hd_Cons_tl snd_conv)
  show ?thesis
    using assms l
    by (simp add: tlsCheckHost_def Let_def il versionCheck_def verification_def tv
        split: option.splits)
qed

lemma example_head_simps:
  "tlsCheckHeadOnly (example_tls_env debug) ''https://unreachable.example/''
     = Inl (Error ''dial tcp: i/o timeout'')"
  "tlsCheckHeadOnly (example_tls_env debug) ''https://good.example/'' = Inr (Some good_state)"
  "tlsCheckHeadOnly (example_tls_env debug) ''https://bad.example/'' = Inr (Some bad_state)"
  "tlsCheckHeadOnly (example_tls_env debug) ''https://empty.example/'' = Inr (Some empty_state)"
  "tlsCheckHeadOnly (example_tls_env debug) ''https://unknown.example/''
     = Inr (Some unknown_state)"
  by (simp_all add: tlsCheckHeadOnly_def example_tls_env_def example_Head_def)

lemma example_verification:
  "verification (example_tls_env debug) good_state = None"
  "verification (example_tls_env debug) bad_state
     = Some (Error ''x509: certificate signed by unknown authority'')"
  "verification (example_tls_env debug) unknown_state
     = Some (Error ''x509: certificate signed by unknown authority'')"
  by (simp_all add: verification_def verifyOptions_def example_tls_env_def example_Verify_def
      good_state_def bad_state_def unknown_state_def example_certificate_def NewCertPool_def
      AddCert_def)

text \<open>
  After a connection state with a non-empty chain, the map that the call leaves has the
  entry of the last certificate's issuer set to the outcome of the verification, whatever
  was there before and whether or not the call returns.
\<close>

lemma tlsCheckHost_trust_table:
  assumes "tlsCheckHeadOnly env (''https://'' @ host @ ''/'') = Inr (Some state)"
    and "PeerCertificates state \<noteq> []"
  shows "snd (tlsCheckHost env host roots)
           = roots(Issuer (last (PeerCertificates state)) \<mapsto> (verification env state = None))"
  using assms(2)
  by (simp add: tlsCheckHost_state [OF assms(1)] Let_def split: option.splits)

text \<open>
  After a connection state, the call fails to return in one case only: the chain is not
  empty, the debug mode is on, the verification failed, and the signature of some
  certificate has a capacity below six.
\<close>

lemma tlsCheckHost_panics_iff:
  assumes "tlsCheckHeadOnly env (''https://'' @ host @ ''/'') = Inr (Some state)"
  shows "fst (tlsCheckHost env host roots) = None
           \<longleftrightarrow> PeerCertificates state \<noteq> [] \<and> DebugFlag env
               \<and> verification env state \<noteq> None
               \<and> (\<exists>c\<in>set (PeerCertificates state). slice_cap (Signature c) < 6)"
proof -
  have "fst (tlsCheckHost env host roots) = None
          \<longleftrightarrow> PeerCertificates state \<noteq> [] \<and> DebugFlag env
              \<and> verification env state \<noteq> None
              \<and> certificateChain env (PeerCertificates state) = None"
    by (simp add: tlsCheckHost_state [OF assms] Let_def split: option.splits)
  then show ?thesis
    by (simp only: certificateChain_None)
qed

text \<open>
  Whenever the call returns after a connection state with a non-empty chain, the result
  holds exactly one check of the verify category, which is ok if and only if the leaf
  verified and warning if and only if it did not.
\<close>

lemma tlsCheckHost_verify_returned:
  assumes "tlsCheckHeadOnly env (''https://'' @ host @ ''/'') = Inr (Some state)"
    and "PeerCertificates state \<noteq> []"
    and "fst (tlsCheckHost env host roots) = Some checks"
  shows "\<exists>check. filter (\<lambda>c. Category c = CategoryNetworkTLSVerify) checks = [check]
           \<and> (Status check = statusOk \<longleftrightarrow> verification env state = None)
           \<and> (Status check = statusWarning \<longleftrightarrow> verification env state \<noteq> None)"
  using assms(2,3)
  by (auto simp add: tlsCheckHost_state [OF assms(1)] Let_def versionCheck_def status_distinct
      split: option.splits if_splits)

text \<open>
  Whenever the call returns after a connection state, the first check of the result is the
  version check and no other check is of the version category. The version check is ok for
  TLS 1.2 and TLS 1.3 and a warning otherwise; for a version outside the table of five
  entries its message is "unknown TLS version" with the host and the version in
  hexadecimal.
\<close>

lemma versionCheck_status:
  "Category (versionCheck env host state) = CategoryNetworkTLSVersion"
  "Status (versionCheck env host state)
     = (if Version state \<in> {VersionTLS12, VersionTLS13} then statusOk else statusWarning)"
  "Version state \<notin> {VersionSSL30, VersionTLS10, VersionTLS11, VersionTLS12, VersionTLS13}
     \<Longrightarrow> Message (versionCheck env host state)
           = ''unknown TLS version: '' @ Quote env host @ '' -> '' @ fmt_03x (Version state)"
proof -
  show "Category (versionCheck env host state) = CategoryNetworkTLSVersion"
    by (simp add: versionCheck_def split: option.splits)
  show "Status (versionCheck env host state)
     = (if Version state \<in> {VersionTLS12, VersionTLS13} then statusOk else statusWarning)"
    using tlsVersions_known [of "Version state"]
    by (auto simp add: versionCheck_def VersionSSL30_def VersionTLS10_def VersionTLS11_def
        VersionTLS12_def VersionTLS13_def split: option.splits)
  show "Version state \<notin> {VersionSSL30, VersionTLS10, VersionTLS11, VersionTLS12, VersionTLS13}
     \<Longrightarrow> Message (versionCheck env host state)
           = ''unknown TLS version: '' @ Quote env host @ '' -> '' @ fmt_03x (Version state)"
    using tlsVersions_known [of "Version state"]
    by (auto simp add: versionCheck_def split: option.splits)
qed

lemma tlsCheckHost_version_returned:
  assumes "tlsCheckHeadOnly env (''https://'' @ host @ ''/'') = Inr (Some state)"
    and "fst (tlsCheckHost env host roots) = Some checks"
  shows "\<exists>rest. checks = versionCheck env host state # rest
           \<and> (\<forall>c\<in>set rest. Category c \<noteq> CategoryNetworkTLSVersion)"
  using assms(2)
  by (auto simp add: tlsCheckHost_state [OF assms(1)] Let_def split: option.splits if_splits)

subsection \<open>Claims\<close>

text \<open>
  C3. When the transport call of the probe fails, so that no connection state is obtained,
  \<^verbatim>\<open>tlsCheckHost\<close> returns exactly one check; its status is warning and its type network,
  its category is the link category (neither a version nor a verify check), and the trust
  table is as it was.
\<close>

theorem tlsCheckHost_transport_failure:
  assumes "tlsCheckHeadOnly env (''https://'' @ host @ ''/'') = Inl err"
  shows "\<exists>check. tlsCheckHost env host roots = (Some [check], roots)
           \<and> Status check = statusWarning \<and> Type check = ''network''
           \<and> Category check = CategoryNetworkLink
           \<and> Message check = ''https://'' @ host @ ''/'' @ '' -> '' @ error_text err"
  using assms by (simp add: tlsCheckHost_def Let_def)

theorem tlsCheckHost_transport_failure_witness:
  "tlsCheckHeadOnly (example_tls_env False) (''https://'' @ ''unreachable.example'' @ ''/'')
     = Inl (Error ''dial tcp: i/o timeout'')
   \<and> (\<exists>check. tlsCheckHost (example_tls_env False) ''unreachable.example'' Map.empty
                 = (Some [check], Map.empty)
              \<and> Status check = statusWarning \<and> Type check = ''network''
              \<and> Category check = CategoryNetworkLink
              \<and> Message check = ''https://unreachable.example/ -> dial tcp: i/o timeout'')"
proof -
  have h: "tlsCheckHeadOnly (example_tls_env False)
             (''https://'' @ ''unreachable.example'' @ ''/'')
           = Inl (Error ''dial tcp: i/o timeout'')"
    using example_head_simps(1) [of False] by simp
  show ?thesis
    using h tlsCheckHost_transport_failure [OF h, of Map.empty] by simp
qed

text \<open>
  C4. When the peer certificate chain is empty, \<^verbatim>\<open>tlsCheckHost\<close> returns the version check
  followed by exactly one more check, which is the last one: a warning of the verify
  category with the message "no certificates for" and the negotiated server name. The trust
  table is returned as it was.
\<close>

theorem tlsCheckHost_no_certificates:
  assumes "tlsCheckHeadOnly env (''https://'' @ host @ ''/'') = Inr (Some state)"
    and "PeerCertificates state = []"
  shows "\<exists>version_check check.
           tlsCheckHost env host roots = (Some [version_check, check], roots)
           \<and> Category version_check = CategoryNetworkTLSVersion
           \<and> Category check = CategoryNetworkTLSVerify
           \<and> Status check = statusWarning
           \<and> Message check = ''no certificates for '' @ ServerName state"
  using assms
  by (simp add: tlsCheckHost_state Let_def versionCheck_def split: option.splits)

theorem tlsCheckHost_no_certificates_witness:
  "tlsCheckHeadOnly (example_tls_env False) (''https://'' @ ''empty.example'' @ ''/'')
     = Inr (Some empty_state)
   \<and> PeerCertificates empty_state = []
   \<and> (\<exists>version_check check.
         tlsCheckHost (example_tls_env False) ''empty.example'' [''Example Root'' \<mapsto> True]
           = (Some [version_check, check], [''Example Root'' \<mapsto> True])
         \<and> Category version_check = CategoryNetworkTLSVersion
         \<and> Category check = CategoryNetworkTLSVerify
         \<and> Status check = statusWarning
         \<and> Message check = ''no certificates for empty.example'')"
proof -
  have h: "tlsCheckHeadOnly (example_tls_env False) (''https://'' @ ''empty.example'' @ ''/'')
           = Inr (Some empty_state)"
    using example_head_simps(4) [of False] by simp
  have e: "PeerCertificates empty_state = []"
    by (simp add: empty_state_def)
  show ?thesis
    using h e tlsCheckHost_no_certificates [OF h e, of "[''Example Root'' \<mapsto> True]"]
    by (simp add: empty_state_def)
qed

text \<open>
  C1 says that for every non-empty chain \<^verbatim>\<open>tlsCheckHost\<close> emits exactly one verify check
  and records the outcome in the trust table. Here the program does not do so: the debug
  mode is on, the host \<^verbatim>\<open>bad.example\<close> presents one certificate whose signature has three
  bytes and no spare capacity, and the verification fails. Line 117 writes the entry false
  for the issuer, and then the chain dump of line 131 slices six bytes of the signature
  (line 50) and panics: the call returns no check at all.
\<close>

theorem tlsCheckHost_verify_check_panic:
  "tlsCheckHeadOnly (example_tls_env True) ''https://bad.example/'' = Inr (Some bad_state)
   \<and> PeerCertificates bad_state \<noteq> []
   \<and> DebugFlag (example_tls_env True)
   \<and> verification (example_tls_env True) bad_state
       = Some (Error ''x509: certificate signed by unknown authority'')
   \<and> map (\<lambda>c. slice_cap (Signature c)) (PeerCertificates bad_state) = [3]
   \<and> tlsCheckHost (example_tls_env True) ''bad.example'' [''Example Root'' \<mapsto> True]
       = (None, [''Example Root'' \<mapsto> False])"
proof -
  have h: "tlsCheckHeadOnly (example_tls_env True) (''https://'' @ ''bad.example'' @ ''/'')
           = Inr (Some bad_state)"
    using example_head_simps(3) [of True] by simp
  have c: "certificateChain (example_tls_env True) (PeerCertificates bad_state) = None"
    by (simp add: certificateChain_None bad_state_def example_certificate_def slice_cap_def)
  have d: "DebugFlag (example_tls_env True)"
    by (simp add: example_tls_env_def)
  have n: "PeerCertificates bad_state \<noteq> []"
    by (simp add: bad_state_def)
  have i: "Issuer (last (PeerCertificates bad_state)) = ''Example Root''"
    by (simp add: bad_state_def example_certificate_def)
  have m: "map (\<lambda>c. slice_cap (Signature c)) (PeerCertificates bad_state) = [3]"
    by (simp add: bad_state_def example_certificate_def slice_cap_def)
  have "tlsCheckHost (example_tls_env True) ''bad.example'' [''Example Root'' \<mapsto> True]
          = (None, [''Example Root'' \<mapsto> False])"
    using n by (simp add: tlsCheckHost_state [OF h] Let_def example_verification c d i)
  with h n d m show ?thesis
    by (simp add: example_verification)
qed

text \<open>
  C2 says that for a version outside the table a warning with the message "unknown TLS
  version" is produced, with no crash. Here the program crashes instead: the host
  \<^verbatim>\<open>unknown.example\<close> negotiates the version 0x0305, which the table does not have, the
  debug mode is on, its one certificate has a signature of three bytes and no spare
  capacity, and the verification fails. The version check is appended to the result, and
  then the chain dump of line 131 panics (line 50), so that the call returns nothing, the
  version check included.
\<close>

theorem tlsCheckHost_version_check_panic:
  "tlsCheckHeadOnly (example_tls_env True) ''https://unknown.example/''
     = Inr (Some unknown_state)
   \<and> Version unknown_state = 0x0305
   \<and> tlsVersions (Version unknown_state) = None
   \<and> DebugFlag (example_tls_env True)
   \<and> verification (example_tls_env True) unknown_state
       = Some (Error ''x509: certificate signed by unknown authority'')
   \<and> map (\<lambda>c. slice_cap (Signature c)) (PeerCertificates unknown_state) = [3]
   \<and> fst (tlsCheckHost (example_tls_env True) ''unknown.example'' Map.empty) = None"
proof -
  have h: "tlsCheckHeadOnly (example_tls_env True) (''https://'' @ ''unknown.example'' @ ''/'')
           = Inr (Some unknown_state)"
    using example_head_simps(5) [of True] by simp
  have v: "Version unknown_state = 0x0305"
    by (simp add: unknown_state_def)
  have t: "tlsVersions (Version unknown_state) = None"
    by (simp add: v tlsVersions_def VersionSSL30_def VersionTLS10_def VersionTLS11_def
        VersionTLS12_def VersionTLS13_def)
  have c: "certificateChain (example_tls_env True) (PeerCertificates unknown_state) = None"
    by (simp add: certificateChain_None unknown_state_def example_certificate_def slice_cap_def)
  have d: "DebugFlag (example_tls_env True)"
    by (simp add: example_tls_env_def)
  have n: "PeerCertificates unknown_state \<noteq> []"
    by (simp add: unknown_state_def)
  have m: "map (\<lambda>c. slice_cap (Signature c)) (PeerCertificates unknown_state) = [3]"
    by (simp add: unknown_state_def example_certificate_def slice_cap_def)
  have "fst (tlsCheckHost (example_tls_env True) ''unknown.example'' Map.empty) = None"
    using n by (simp add: tlsCheckHost_state [OF h] Let_def example_verification c d)
  with h v t d m show ?thesis
    by (simp add: example_verification)
qed

text \<open>
  C10. \<^verbatim>\<open>certificateChain\<close> slices the first six bytes of every signature without a guard.
  When every certificate of the chain has a signature of at least six bytes it returns a
  text; and there is a chain with a shorter signature on which the slice is out of range.
\<close>

theorem certificateChain_signature_precondition:
  "((\<forall>c\<in>set certificates. 6 \<le> slice_len (Signature c))
      \<longrightarrow> (\<exists>chain. certificateChain env certificates = Some chain))
   \<and> (\<exists>short. (\<exists>c\<in>set short. slice_len (Signature c) < 6)
         \<and> certificateChain env short = None)"
proof
  show "(\<forall>c\<in>set certificates. 6 \<le> slice_len (Signature c))
          \<longrightarrow> (\<exists>chain. certificateChain env certificates = Some chain)"
  proof
    assume long: "\<forall>c\<in>set certificates. 6 \<le> slice_len (Signature c)"
    have "\<not> (\<exists>c\<in>set certificates. slice_cap (Signature c) < 6)"
    proof
      assume "\<exists>c\<in>set certificates. slice_cap (Signature c) < 6"
      then obtain c where "c \<in> set certificates" and "slice_cap (Signature c) < 6"
        by blast
      with long slice_len_le_cap [of "Signature c"] show False
        by force
    qed
    then have "certificateChain env certificates \<noteq> None"
      by (simp only: certificateChain_None) simp
    then show "\<exists>chain. certificateChain env certificates = Some chain"
      by blast
  qed
  show "\<exists>short. (\<exists>c\<in>set short. slice_len (Signature c) < 6)
          \<and> certificateChain env short = None"
  proof (intro exI conjI)
    show "\<exists>c\<in>set [example_certificate [1, 2, 3] ''bad.example'' ''Example Root''].
            slice_len (Signature c) < 6"
      by (simp add: example_certificate_def slice_len_def)
    show "certificateChain env [example_certificate [1, 2, 3] ''bad.example'' ''Example Root'']
            = None"
      by (simp add: certificateChain_None example_certificate_def slice_cap_def)
  qed
qed

theorem certificateChain_signature_precondition_witness:
  "map (\<lambda>c. slice_len (Signature c)) (PeerCertificates good_state) = [8, 8]
   \<and> (\<exists>chain. certificateChain (example_tls_env True) (PeerCertificates good_state)
                 = Some chain)
   \<and> map (\<lambda>c. slice_len (Signature c)) (PeerCertificates bad_state) = [3]
   \<and> certificateChain (example_tls_env True) (PeerCertificates bad_state) = None"
proof -
  have l: "\<forall>c\<in>set (PeerCertificates good_state). 6 \<le> slice_len (Signature c)"
    by (simp add: good_state_def example_certificate_def slice_len_def)
  have m: "map (\<lambda>c. slice_len (Signature c)) (PeerCertificates good_state) = [8, 8]"
    "map (\<lambda>c. slice_len (Signature c)) (PeerCertificates bad_state) = [3]"
    by (simp_all add: good_state_def bad_state_def example_certificate_def slice_len_def)
  have b: "certificateChain (example_tls_env True) (PeerCertificates bad_state) = None"
    by (simp add: certificateChain_None bad_state_def example_certificate_def slice_cap_def)
  from certificateChain_signature_precondition
         [of "PeerCertificates good_state" "example_tls_env True"] l
  have "\<exists>chain. certificateChain (example_tls_env True) (PeerCertificates good_state)
                  = Some chain"
    by blast
  with m b show ?thesis by simp
qed

section \<open>Properties of \<^verbatim>\<open>diagnostics.go\<close>\<close>

subsection \<open>Auxiliary facts\<close>

lemma dns_loop_Checks:
  "Checks (dns_loop env hosts result) = Checks result @ map (dnsLookupCheck env) hosts"
  by (induction hosts arbitrary: result) simp_all

lemma dns_loop_Details:
  "Details (dns_loop env hosts result) = Details result"
  by (induction hosts arbitrary: result) simp_all

lemma RunDiagnostics_Checks:
  "Checks (RunDiagnostics env) =
     [robocorpHomeCheck env, longPathSupportCheck env]
       @ map (dnsLookupCheck env) checkedHosts @ [canaryDownloadCheck env]"
  by (simp add: RunDiagnostics_def Let_def set_detail_def dns_loop_Checks
      split: prod.splits)

lemma producers_valid:
  "Message (robocorpHomeCheck env) \<noteq> [] \<and> Status (robocorpHomeCheck env) \<in> status_vocabulary"
  "Message (longPathSupportCheck env) \<noteq> []
     \<and> Status (longPathSupportCheck env) \<in> status_vocabulary"
  "Message (dnsLookupCheck env site) \<noteq> []
     \<and> Status (dnsLookupCheck env site) \<in> status_vocabulary"
  "Message (canaryDownloadCheck env) \<noteq> []
     \<and> Status (canaryDownloadCheck env) \<in> status_vocabulary"
  by (simp_all add: robocorpHomeCheck_def longPathSupportCheck_def dnsLookupCheck_def
      canaryDownloadCheck_def status_vocabulary_def canaryHost_def Let_def
      split: sum.splits option.splits)

lemma versionCheck_valid:
  "Message (versionCheck env host state) \<noteq> []
     \<and> Status (versionCheck env host state) \<in> status_vocabulary"
  by (simp add: versionCheck_def status_vocabulary_def split: option.splits)

lemma tlsCheckHost_valid:
  assumes "tlsCheckHost env host roots = (Some checks, roots')"
    and "check \<in> set checks"
  shows "Message check \<noteq> [] \<and> Status check \<in> status_vocabulary"
proof (cases "tlsCheckHeadOnly env (''https://'' @ host @ ''/'')")
  case (Inl err)
  with assms show ?thesis
    by (auto simp add: tlsCheckHost_def Let_def status_vocabulary_def)
next
  case (Inr found)
  show ?thesis
  proof (cases found)
    case None
    with Inr assms show ?thesis
      by (simp add: tlsCheckHost_def Let_def)
  next
    case (Some state)
    with Inr have h: "tlsCheckHeadOnly env (''https://'' @ host @ ''/'') = Inr (Some state)"
      by simp
    from assms versionCheck_valid [of env host state] show ?thesis
      by (auto simp add: tlsCheckHost_state [OF h] Let_def status_vocabulary_def
          split: if_splits option.splits)
  qed
qed

lemma collect_keys_append: "collect_keys rest keys = keys @ rest"
  by (induction rest arbitrary: keys) simp_all

lemma print_details_concat:
  "print_details lib details keys sink = sink @ concat (map (detail_line lib details) keys)"
  by (induction keys arbitrary: sink) (simp_all add: detail_line_def Let_def)

lemma print_checks_concat:
  "print_checks lib checks sink = sink @ concat (map (check_line lib) checks)"
  by (induction checks arbitrary: sink) (simp_all add: check_line_def)

lemma humaneDiagnostics_sorted:
  assumes "distinct range_order"
  shows "humaneDiagnostics lib range_order sink details
     = sink @ ''Diagnostics:'' @ newline
         @ concat (map (detail_line lib details) (sorted_list_of_set (set range_order)))
         @ newline @ ''Checks:'' @ newline
         @ concat (map (check_line lib) (Checks details))"
proof -
  have "sort range_order = sorted_list_of_set (set range_order)"
    using assms by (simp add: sorted_list_of_set_sort_remdups distinct_remdups_id)
  then show ?thesis
    by (simp add: humaneDiagnostics_def Let_def Fprintln_def collect_keys_append
        print_details_concat print_checks_concat)
qed

lemma example_lookup:
  "LookupHost example_diag_env ''pypi.org'' = Inl (Error ''lookup pypi.org: no such host'')"
  by (simp add: example_diag_env_def)

subsection \<open>Claims\<close>

text \<open>
  C5, as the program has it. For the host at any position of the configured list whose DNS
  lookup fails, the check recorded in the report for it (two places behind that position,
  after the two local checks) is of type network and has the status fail, with the error in
  its message; the failure is a check and nothing else, and the report has all its checks,
  three besides one for each host.
\<close>

theorem dnsLookupCheck_failure_recorded:
  assumes "i < length checkedHosts"
    and "LookupHost env (checkedHosts ! i) = Inl err"
  shows "Checks (RunDiagnostics env) ! (2 + i)
           = \<lparr>Type = ''network'', Status = statusFail,
              Message = ''DNS lookup '' @ checkedHosts ! i @ '' failed: '' @ error_text err,
              Link = supportNetworkUrl\<rparr>
         \<and> length (Checks (RunDiagnostics env)) = length checkedHosts + 3"
proof -
  have "Checks (RunDiagnostics env) ! (2 + i)
          = (map (dnsLookupCheck env) checkedHosts @ [canaryDownloadCheck env]) ! i"
    by (simp add: RunDiagnostics_Checks)
  also have "\<dots> = dnsLookupCheck env (checkedHosts ! i)"
    using assms(1) by (simp add: nth_append)
  also have "\<dots> = \<lparr>Type = ''network'', Status = statusFail,
              Message = ''DNS lookup '' @ checkedHosts ! i @ '' failed: '' @ error_text err,
              Link = supportNetworkUrl\<rparr>"
    using assms(2) by (simp add: dnsLookupCheck_def)
  finally show ?thesis
    by (simp add: RunDiagnostics_Checks)
qed

theorem dnsLookupCheck_failure_recorded_witness:
  "2 < length checkedHosts
   \<and> LookupHost example_diag_env (checkedHosts ! 2)
       = Inl (Error ''lookup pypi.org: no such host'')
   \<and> Checks (RunDiagnostics example_diag_env) ! 4
       = \<lparr>Type = ''network'', Status = statusFail,
          Message = ''DNS lookup pypi.org failed: lookup pypi.org: no such host'',
          Link = supportNetworkUrl\<rparr>
   \<and> length (Checks (RunDiagnostics example_diag_env)) = 9"
proof -
  have l: "2 < length checkedHosts"
    by (simp add: checkedHosts_def)
  have h: "checkedHosts ! 2 = ''pypi.org''"
    by (simp add: checkedHosts_def)
  have e: "LookupHost example_diag_env (checkedHosts ! 2)
             = Inl (Error ''lookup pypi.org: no such host'')"
    by (simp add: h example_lookup)
  show ?thesis
    using l e dnsLookupCheck_failure_recorded [OF l e]
    by (simp add: h checkedHosts_def)
qed

text \<open>
  C5, as it is stated, fails: in the example the lookup of \<^verbatim>\<open>pypi.org\<close>, the third
  configured host, fails, and the check recorded for it does not have the status warning.
\<close>

theorem dnsLookupCheck_failure_counterexample:
  "checkedHosts ! 2 = ''pypi.org''
   \<and> LookupHost example_diag_env ''pypi.org'' = Inl (Error ''lookup pypi.org: no such host'')
   \<and> Checks (RunDiagnostics example_diag_env) ! 4 = dnsLookupCheck example_diag_env ''pypi.org''
   \<and> Status (Checks (RunDiagnostics example_diag_env) ! 4) \<noteq> statusWarning"
proof -
  have h: "checkedHosts ! 2 = ''pypi.org''"
    by (simp add: checkedHosts_def)
  have c: "Checks (RunDiagnostics example_diag_env) ! 4
             = dnsLookupCheck example_diag_env ''pypi.org''"
    by (simp add: RunDiagnostics_Checks checkedHosts_def)
  have s: "Status (dnsLookupCheck example_diag_env ''pypi.org'') = statusFail"
    by (simp add: dnsLookupCheck_def example_lookup)
  from h c s example_lookup show ?thesis
    by (simp add: status_distinct)
qed

text \<open>
  C6, as the program has it. The checks of the report are, in this order and with nothing
  left out, moved or merged: the check of the home directory, the check of long paths, one
  DNS check for each configured host in the order of the list, and the canary download.
\<close>

theorem RunDiagnostics_order:
  "Checks (RunDiagnostics env) =
     robocorpHomeCheck env # longPathSupportCheck env
       # map (dnsLookupCheck env) checkedHosts @ [canaryDownloadCheck env]"
  by (simp add: RunDiagnostics_Checks)

theorem RunDiagnostics_order_witness:
  "map Type (Checks (RunDiagnostics example_diag_env))
     = [''RPA'', ''OS'', ''network'', ''network'', ''network'', ''network'', ''network'',
        ''network'', ''network'']
   \<and> map Status (Checks (RunDiagnostics example_diag_env))
     = [statusOk, statusOk, statusOk, statusOk, statusFail, statusOk, statusOk, statusOk,
        statusOk]
   \<and> Message (Checks (RunDiagnostics example_diag_env) ! 0)
     = ''ROBOCORP_HOME (/home/user/.robocorp) is good enough.''
   \<and> Message (Checks (RunDiagnostics example_diag_env) ! 1) = ''Supports long enough paths.''"
  using RunDiagnostics_order [of example_diag_env]
  by (simp add: robocorpHomeCheck_def longPathSupportCheck_def dnsLookupCheck_def
      canaryDownloadCheck_def checkedHosts_def example_diag_env_def Let_def)

text \<open>
  C6, as it is stated, puts the check of long paths before the check of the home directory.
  The report of the example does not have that order.
\<close>

theorem RunDiagnostics_order_counterexample:
  "Checks (RunDiagnostics example_diag_env) \<noteq>
     longPathSupportCheck example_diag_env # robocorpHomeCheck example_diag_env
       # map (dnsLookupCheck example_diag_env) checkedHosts
       @ [canaryDownloadCheck example_diag_env]"
proof -
  have "Type (robocorpHomeCheck example_diag_env) = ''RPA''"
    by (simp add: robocorpHomeCheck_def)
  moreover have "Type (longPathSupportCheck example_diag_env) = ''OS''"
    by (simp add: longPathSupportCheck_def)
  ultimately have "robocorpHomeCheck example_diag_env \<noteq> longPathSupportCheck example_diag_env"
    by auto
  then show ?thesis
    by (simp add: RunDiagnostics_Checks)
qed

text \<open>
  C7. Every check has a message that is not empty and a status out of ok, warning, fail and
  fatal: the check of the home directory, of long paths, of a DNS lookup and of the canary
  download, hence every check of the report of \<^verbatim>\<open>RunDiagnostics\<close>, and every check that
  \<^verbatim>\<open>tlsCheckHost\<close> returns.
\<close>

theorem checks_have_message_and_status:
  "(\<forall>check\<in>{robocorpHomeCheck denv, longPathSupportCheck denv, dnsLookupCheck denv site,
             canaryDownloadCheck denv}.
      Message check \<noteq> [] \<and> Status check \<in> status_vocabulary)
   \<and> (\<forall>check\<in>set (Checks (RunDiagnostics denv)).
        Message check \<noteq> [] \<and> Status check \<in> status_vocabulary)
   \<and> (\<forall>checks roots'. tlsCheckHost env host roots = (Some checks, roots')
        \<longrightarrow> (\<forall>check\<in>set checks. Message check \<noteq> [] \<and> Status check \<in> status_vocabulary))"
proof (intro conjI)
  show "\<forall>check\<in>{robocorpHomeCheck denv, longPathSupportCheck denv, dnsLookupCheck denv site,
                canaryDownloadCheck denv}.
          Message check \<noteq> [] \<and> Status check \<in> status_vocabulary"
    using producers_valid [of denv] by blast
  show "\<forall>check\<in>set (Checks (RunDiagnostics denv)).
          Message check \<noteq> [] \<and> Status check \<in> status_vocabulary"
    using producers_valid [of denv] by (auto simp add: RunDiagnostics_Checks)
  show "\<forall>checks roots'. tlsCheckHost env host roots = (Some checks, roots')
          \<longrightarrow> (\<forall>check\<in>set checks. Message check \<noteq> [] \<and> Status check \<in> status_vocabulary)"
    using tlsCheckHost_valid by blast
qed

theorem checks_have_message_and_status_witness:
  "dnsLookupCheck example_diag_env ''pypi.org'' \<in> set (Checks (RunDiagnostics example_diag_env))
   \<and> Message (dnsLookupCheck example_diag_env ''pypi.org'') \<noteq> []
   \<and> Status (dnsLookupCheck example_diag_env ''pypi.org'') \<in> status_vocabulary
   \<and> (\<exists>checks roots'.
         tlsCheckHost (example_tls_env False) ''unreachable.example'' Map.empty
           = (Some checks, roots')
         \<and> checks \<noteq> []
         \<and> (\<forall>check\<in>set checks. Message check \<noteq> [] \<and> Status check \<in> status_vocabulary))"
proof -
  have m: "dnsLookupCheck example_diag_env ''pypi.org''
             \<in> set (Checks (RunDiagnostics example_diag_env))"
    by (simp add: RunDiagnostics_Checks checkedHosts_def)
  have t: "\<exists>check. tlsCheckHost (example_tls_env False) ''unreachable.example'' Map.empty
             = (Some [check], Map.empty)"
    using example_head_simps(1) [of False] by (simp add: tlsCheckHost_def Let_def)
  from m t
    checks_have_message_and_status
      [of example_diag_env "''pypi.org''" "example_tls_env False" "''unreachable.example''"
          Map.empty]
  show ?thesis
    by (metis list.distinct(1))
qed

text \<open>
  C8. Whatever the order in which the keys of the details come out of the map, the human
  text is: the heading, one line for each key of the details in lexicographically sorted
  order, an empty line, the heading of the checks, and one line for each check in the order
  of the report.
\<close>

theorem humaneDiagnostics_order:
  assumes "distinct range_order"
    and "set range_order = dom (Details details)"
  shows "humaneDiagnostics lib range_order sink details
           = sink @ ''Diagnostics:'' @ newline
               @ concat (map (detail_line lib details)
                   (sorted_list_of_set (dom (Details details))))
               @ newline @ ''Checks:'' @ newline
               @ concat (map (check_line lib) (Checks details))
         \<and> sorted (sorted_list_of_set (dom (Details details)))
         \<and> distinct (sorted_list_of_set (dom (Details details)))
         \<and> set (sorted_list_of_set (dom (Details details))) = dom (Details details)"
proof -
  have "finite (dom (Details details))"
    using assms(2) [symmetric] by simp
  then show ?thesis
    using humaneDiagnostics_sorted [OF assms(1), of lib sink details] assms(2)
    by simp
qed

theorem humaneDiagnostics_order_witness:
  "distinct [''rcc'', ''os''] \<and> distinct [''os'', ''rcc'']
   \<and> set [''rcc'', ''os''] = dom (Details example_report)
   \<and> set [''os'', ''rcc''] = dom (Details example_report)
   \<and> humaneDiagnostics example_diag_env [''rcc'', ''os''] [] example_report
       = humaneDiagnostics example_diag_env [''os'', ''rcc''] [] example_report
   \<and> humaneDiagnostics example_diag_env [''rcc'', ''os''] [] example_report
       = ''Diagnostics:'' @ newline
           @ concat (map (detail_line example_diag_env example_report)
               (sorted_list_of_set (dom (Details example_report))))
           @ newline @ ''Checks:'' @ newline
           @ concat (map (check_line example_diag_env) (Checks example_report))"
proof -
  have d1: "distinct [''rcc'', ''os'']" and d2: "distinct [''os'', ''rcc'']"
    by simp_all
  have s1: "set [''rcc'', ''os''] = dom (Details example_report)"
    and s2: "set [''os'', ''rcc''] = dom (Details example_report)"
    by (auto simp add: example_report_def)
  show ?thesis
    using d1 d2 s1 s2
      humaneDiagnostics_order [OF d1 s1, of example_diag_env "[]"]
      humaneDiagnostics_order [OF d2 s2, of example_diag_env "[]"]
    by simp
qed

end
